theory Spec2Isabelle
  imports Complex_Main "HOL-Library.Sublist" "HOL-Library.Product_Lexorder"
begin

section \<open>Event recommendation: profile building, scoring and ranking\<close>

text \<open>
  A shallow embedding of \<^verbatim>\<open>app/services/recommendation_service.py\<close> (class
  \<^verbatim>\<open>RecommendationService\<close>) and of the profile builder and the fallback branch of
  \<^verbatim>\<open>app/api/v1/endpoints/analytics.py\<close>.

  Conventions of the model:
  \<^item> Python floats are modelled by \<open>real\<close>: sums, quotients and comparisons are exact.
    The components of a score are integers, half-integers and the library's similarity
    times 25, so the two differ only by the rounding of IEEE doubles.
  \<^item> A dictionary read with \<^verbatim>\<open>d.get(k, default)\<close> is a \<open>field\<close>: the key may be
    missing, may hold \<^verbatim>\<open>None\<close>, or may hold a value. Where the source treats a missing key
    and \<^verbatim>\<open>None\<close> alike (\<^verbatim>\<open>d.get(k) or default\<close>) the field is an \<open>option\<close>.
  \<^item> An exception that leaves a function is a value \<open>Inl e\<close> of the result.
  \<^item> The scikit-learn vectorizer, the two date parsers of the standard library and the
    clock are parameters, collected in the record \<open>env\<close>; the vectorizer object stored in
    \<^verbatim>\<open>self.vectorizer\<close> is a state of type \<open>'v\<close>, passed in and returned.
  \<^item> Strings are lists of 8-bit characters; \<^verbatim>\<open>str.lower\<close> is modelled on ASCII letters.
\<close>

subsection \<open>Python values and strings\<close>

datatype py_error = AttributeError | TypeError | ValueError

datatype 'a field = Missing | Null | Val 'a

definition lower_char :: "char \<Rightarrow> char" where
  "lower_char c =
     (let n = (of_char c :: nat) in if 65 \<le> n \<and> n \<le> 90 then char_of (n + 32) else c)"

definition lower :: "string \<Rightarrow> string" where
  "lower s = map lower_char s"

text \<open>\<^verbatim>\<open>a in b\<close> on strings: \<open>a\<close> occurs in \<open>b\<close> as a contiguous substring.\<close>

fun py_in :: "string \<Rightarrow> string \<Rightarrow> bool" where
  "py_in a [] = (a = [])"
| "py_in a (y # ys) = (prefix a (y # ys) \<or> py_in a ys)"

text \<open>\<^verbatim>\<open>' '.join(parts)\<close>.\<close>

fun join_space :: "string list \<Rightarrow> string" where
  "join_space [] = []"
| "join_space [p] = p"
| "join_space (p # q # ps) = p @ '' '' @ join_space (q # ps)"

text \<open>\<^verbatim>\<open>s.split()\<close>: the maximal runs of non-whitespace characters.\<close>

definition is_space :: "char \<Rightarrow> bool" where
  "is_space c = (c \<in> set [CHR '' '', CHR 0x09, CHR 0x0A, CHR 0x0B, CHR 0x0C, CHR 0x0D])"

fun split_acc :: "string \<Rightarrow> string \<Rightarrow> string list" where
  "split_acc cur [] = (if cur = [] then [] else [rev cur])"
| "split_acc cur (c # cs) =
     (if is_space c then (if cur = [] then split_acc [] cs else rev cur # split_acc [] cs)
      else split_acc (c # cur) cs)"

definition py_split :: "string \<Rightarrow> string list" where
  "py_split s = split_acc [] s"

text \<open>\<^verbatim>\<open>s.replace('Z', '+00:00')\<close>.\<close>

definition replace_Z :: "string \<Rightarrow> string" where
  "replace_Z s = concat (map (\<lambda>c. if c = CHR ''Z'' then ''+00:00'' else [c]) s)"

text \<open>\<^verbatim>\<open>xs[:n]\<close>: a negative \<open>n\<close> drops the last \<open>-n\<close> elements.\<close>

definition py_take :: "int \<Rightarrow> 'a list \<Rightarrow> 'a list" where
  "py_take n xs = (if 0 \<le> n then take (nat n) xs else take (nat (int (length xs) + n)) xs)"

text \<open>\<^verbatim>\<open>int(x)\<close> on a float truncates towards zero.\<close>

definition py_int :: "real \<Rightarrow> int" where
  "py_int x = (if 0 \<le> x then \<lfloor>x\<rfloor> else \<lceil>x\<rceil>)"

text \<open>\<^verbatim>\<open>round(x, 2)\<close>: to the nearest multiple of 1/100, a tie going to the even one.\<close>

definition round_half_even :: "real \<Rightarrow> int" where
  "round_half_even y =
     (let f = \<lfloor>y\<rfloor> in
      if y - of_int f < 1 / 2 then f
      else if 1 / 2 < y - of_int f then f + 1
      else if even f then f else f + 1)"

definition round2 :: "real \<Rightarrow> real" where
  "round2 x = of_int (round_half_even (x * 100)) / 100"

text \<open>
  \<^verbatim>\<open>xs.sort(key=k, reverse=True)\<close> and \<^verbatim>\<open>sorted(xs, key=k, reverse=True)\<close>: Python's sort is
  stable, and with \<^verbatim>\<open>reverse=True\<close> elements with equal keys keep their original order.
  For a numeric key this is the stable ascending sort on the negated key.
\<close>

definition sort_desc :: "('a \<Rightarrow> 'k::{linorder,uminus}) \<Rightarrow> 'a list \<Rightarrow> 'a list" where
  "sort_desc k xs = sort_key (\<lambda>x. - k x) xs"

subsection \<open>Data model\<close>

record history_item =
  h_title :: "string option"
  h_category :: string
  h_tags :: "string list"

record user_profile =
  favorite_categories :: "string list"
  favorite_tags :: "string list"
  participation_history :: "history_item list"
  events_created :: nat
  events_attended :: nat
  has_initial_preferences :: bool

record event =
  ev_id :: string
  title :: "string field"
  description :: "string field"
  category :: "string field"
  tags :: "string list option"
  date :: "string option"
  current_participants :: "int field"
  max_participants :: "int option"

text \<open>
  The environment of one request. \<open>fit_similarity v u e\<close> stands for the body of the
  \<^verbatim>\<open>try\<close> block of the text component: \<^verbatim>\<open>self.vectorizer.fit_transform([u, e])\<close>
  followed by \<^verbatim>\<open>cosine_similarity\<close> of the two rows; it returns the similarity, or \<open>None\<close>
  when the library raises, and the vectorizer after the call. \<open>fromisoformat s\<close> and
  \<open>strptime_ymd s\<close> are \<^verbatim>\<open>datetime.fromisoformat(s).date()\<close> and
  \<^verbatim>\<open>datetime.strptime(s, '%Y-%m-%d').date()\<close> as day numbers, \<open>None\<close> when they raise;
  \<open>today\<close> is \<^verbatim>\<open>datetime.now().date()\<close>.
\<close>

record 'v env =
  fit_similarity :: "'v \<Rightarrow> string \<Rightarrow> string \<Rightarrow> real option \<times> 'v"
  fromisoformat :: "string \<Rightarrow> int option"
  strptime_ymd :: "string \<Rightarrow> int option"
  today :: int

subsection \<open>The similarity scorer\<close>

text \<open>\<^verbatim>\<open>d.get(k, '').lower()\<close>: a missing key gives the empty string, \<^verbatim>\<open>None\<close> has no
  method \<^verbatim>\<open>lower\<close>.\<close>

definition get_lower :: "string field \<Rightarrow> py_error + string" where
  "get_lower f = (case f of Missing \<Rightarrow> Inr [] | Null \<Rightarrow> Inl AttributeError | Val s \<Rightarrow> Inr (lower s))"

text \<open>\<^verbatim>\<open>[tag.lower() ... for tag in (event.get('tags', []) or [])]\<close>.\<close>

definition lower_tags :: "event \<Rightarrow> string list" where
  "lower_tags ev = map lower (case tags ev of None \<Rightarrow> [] | Some ts \<Rightarrow> ts)"

text \<open>Component 1, lines 33 to 43, for the lower-cased category of the event.\<close>

definition category_points :: "string list \<Rightarrow> string \<Rightarrow> real" where
  "category_points user_categories event_category =
     (if event_category \<in> set (map lower user_categories) then 30
      else if user_categories \<noteq> [] \<and>
              list_ex (\<lambda>cat. py_in (lower cat) event_category \<or> py_in event_category (lower cat))
                user_categories
      then 15 else 0)"

text \<open>The test of lines 51 and 256: a favourite tag matches the tags of the event.\<close>

definition tag_matches :: "string list \<Rightarrow> string \<Rightarrow> bool" where
  "tag_matches event_tags tag =
     (lower tag \<in> set event_tags \<or> list_ex (\<lambda>et. py_in (lower tag) et) event_tags)"

text \<open>Component 2, lines 45 to 53.\<close>

definition tag_points :: "string list \<Rightarrow> string list \<Rightarrow> real" where
  "tag_points user_tags event_tags =
     (if event_tags \<noteq> [] then
        (let matching_tags = length (filter (tag_matches event_tags) user_tags) in
         if 0 < matching_tags then min 20 (real matching_tags * 5) else 0)
      else 0)"

fun history_parts :: "history_item list \<Rightarrow> py_error + string list" where
  "history_parts [] = Inr []"
| "history_parts (item # items) =
     (case h_title item of
        None \<Rightarrow> Inl AttributeError
      | Some t \<Rightarrow>
          (case history_parts items of
             Inl e \<Rightarrow> Inl e
           | Inr rest \<Rightarrow> Inr ([lower t, lower (h_category item)] @ map lower (h_tags item) @ rest)))"

definition build_user_text :: "user_profile \<Rightarrow> py_error + string" where
  "build_user_text user_profile =
     (case history_parts (participation_history user_profile) of
        Inl e \<Rightarrow> Inl e
      | Inr hist \<Rightarrow>
          Inr (join_space (map lower (favorite_categories user_profile)
                 @ map lower (favorite_tags user_profile) @ hist)))"

definition build_event_text :: "event \<Rightarrow> py_error + string" where
  "build_event_text ev =
     (case get_lower (title ev) of
        Inl e \<Rightarrow> Inl e
      | Inr t \<Rightarrow>
          (case get_lower (description ev) of
             Inl e \<Rightarrow> Inl e
           | Inr d \<Rightarrow>
               (case get_lower (category ev) of
                  Inl e \<Rightarrow> Inl e
                | Inr c \<Rightarrow> Inr (join_space ([t, d, c] @ lower_tags ev)))))"

text \<open>The handler of lines 65 to 72: the share of the user's words the event has.\<close>

definition overlap_points :: "string \<Rightarrow> string \<Rightarrow> real" where
  "overlap_points user_text event_text =
     (let user_words = set (py_split (lower user_text));
          event_words = set (py_split (lower event_text));
          common_words = user_words \<inter> event_words
      in if user_words \<noteq> {} then real (card common_words) / real (card user_words) * 25 else 0)"

text \<open>Component 3, lines 55 to 72; the only place that touches the vectorizer.\<close>

definition text_points :: "'v env \<Rightarrow> 'v \<Rightarrow> string \<Rightarrow> string \<Rightarrow> real \<times> 'v" where
  "text_points env v user_text event_text =
     (if user_text \<noteq> [] \<and> event_text \<noteq> [] then
        (case fit_similarity env v user_text event_text of
           (Some similarity, v') \<Rightarrow> (similarity * 25, v')
         | (None, v') \<Rightarrow> (overlap_points user_text event_text, v'))
      else (0, v))"

text \<open>Lines 75 to 81 (and 261 to 266): the days from today to the event, when the date
  is a non-empty string that \<^verbatim>\<open>fromisoformat\<close> accepts.\<close>

definition days_away :: "'v env \<Rightarrow> event \<Rightarrow> int option" where
  "days_away env ev =
     (case date ev of
        None \<Rightarrow> None
      | Some d \<Rightarrow>
          if d = [] then None
          else (case fromisoformat env (replace_Z d) of
                  None \<Rightarrow> None
                | Some day \<Rightarrow> Some (day - today env)))"

text \<open>Component 4, lines 74 to 89.\<close>

definition date_points :: "'v env \<Rightarrow> event \<Rightarrow> real" where
  "date_points env ev =
     (case days_away env ev of
        None \<Rightarrow> 0
      | Some n \<Rightarrow> if 0 \<le> n \<and> n \<le> 30 then max 0 (15 - real_of_int n / 2) else 0)"

text \<open>\<^verbatim>\<open>event.get('max_participants', 1) or 1\<close>.\<close>

definition max_participants_or_1 :: "event \<Rightarrow> int" where
  "max_participants_or_1 ev =
     (case max_participants ev of None \<Rightarrow> 1 | Some m \<Rightarrow> if m = 0 then 1 else m)"

text \<open>Component 5, lines 91 to 101.\<close>

definition popularity_points :: "event \<Rightarrow> real" where
  "popularity_points ev =
     (let current = (case current_participants ev of Val c \<Rightarrow> c | _ \<Rightarrow> 0);
          maxp = max_participants_or_1 ev
      in if 0 < maxp then
           (let popularity = real_of_int current / real_of_int maxp in
            if 3 / 10 \<le> popularity \<and> popularity \<le> 9 / 10 then 10
            else if 1 / 10 \<le> popularity \<and> popularity < 3 / 10 then 5
            else 0)
         else 0)"

definition calculate_similarity_score ::
  "'v env \<Rightarrow> 'v \<Rightarrow> user_profile \<Rightarrow> event \<Rightarrow> (py_error + real) \<times> 'v" where
  "calculate_similarity_score env v user_profile ev =
     (case get_lower (category ev) of
        Inl e \<Rightarrow> (Inl e, v)
      | Inr event_category \<Rightarrow>
          (case build_user_text user_profile of
             Inl e \<Rightarrow> (Inl e, v)
           | Inr user_text \<Rightarrow>
               (case build_event_text ev of
                  Inl e \<Rightarrow> (Inl e, v)
                | Inr event_text \<Rightarrow>
                    (case text_points env v user_text event_text of
                       (text, v') \<Rightarrow>
                         (Inr (min 100 (max 0
                            (category_points (favorite_categories user_profile) event_category
                             + tag_points (favorite_tags user_profile) (lower_tags ev)
                             + text
                             + date_points env ev
                             + popularity_points ev))), v')))))"

subsection \<open>The ranking engine\<close>

record scored_event =
  sc_event :: event
  sc_score :: real
  sc_confidence :: int

record recommendation =
  eventId :: string
  r_title :: "string option"
  reason :: string
  confidence :: int
  score :: real
  matchFactors :: "string list"

text \<open>Line 212: \<^verbatim>\<open>min(10, max(1, int(score / 10)))\<close>.\<close>

definition confidence_of :: "real \<Rightarrow> int" where
  "confidence_of s = min 10 (max 1 (py_int (s / 10)))"

text \<open>Lines 174 to 176: the profile has no categories, no tags and no history.\<close>

definition no_preferences :: "user_profile \<Rightarrow> bool" where
  "no_preferences user_profile =
     (favorite_categories user_profile = [] \<and> favorite_tags user_profile = []
      \<and> participation_history user_profile = [])"

text \<open>Lines 181 to 188. \<^verbatim>\<open>event.get('current_participants', 0)\<close> has no \<^verbatim>\<open>or 0\<close> here, so
  \<^verbatim>\<open>None\<close> reaches the division.\<close>

definition cold_start_popularity :: "event \<Rightarrow> py_error + real" where
  "cold_start_popularity ev =
     (let maxp = max_participants_or_1 ev in
      if 0 < maxp then
        (case (case current_participants ev of
                 Missing \<Rightarrow> Inr 0 | Null \<Rightarrow> Inl TypeError | Val c \<Rightarrow> Inr c) of
           Inl e \<Rightarrow> Inl e
         | Inr current \<Rightarrow>
             (let popularity = real_of_int current / real_of_int maxp in
              Inr (if 3 / 10 \<le> popularity \<and> popularity \<le> 9 / 10 then 20
                   else if 1 / 10 \<le> popularity \<and> popularity < 3 / 10 then 10
                   else 0)))
      else Inr 0)"

text \<open>Lines 191 to 205: a date with a \<^verbatim>\<open>T\<close> goes through \<^verbatim>\<open>fromisoformat\<close>, any other
  through \<^verbatim>\<open>strptime\<close>; every exception is swallowed.\<close>

definition days_until :: "'v env \<Rightarrow> event \<Rightarrow> int option" where
  "days_until env ev =
     (case date ev of
        None \<Rightarrow> None
      | Some date_str \<Rightarrow>
          if date_str = [] then None
          else (case (if CHR ''T'' \<in> set date_str then fromisoformat env (replace_Z date_str)
                      else strptime_ymd env date_str) of
                  None \<Rightarrow> None
                | Some day \<Rightarrow> Some (day - today env)))"

definition cold_start_date :: "'v env \<Rightarrow> event \<Rightarrow> real" where
  "cold_start_date env ev =
     (case days_until env ev of
        None \<Rightarrow> 0
      | Some n \<Rightarrow> if 0 \<le> n \<and> n \<le> 30 then 10 else 0)"

definition cold_start_score :: "'v env \<Rightarrow> event \<Rightarrow> py_error + real" where
  "cold_start_score env ev =
     (case cold_start_popularity ev of
        Inl e \<Rightarrow> Inl e
      | Inr bonus \<Rightarrow> Inr (40 + bonus + cold_start_date env ev))"

text \<open>The body of the loop of lines 170 to 213, for one event.\<close>

definition score_event ::
  "'v env \<Rightarrow> 'v \<Rightarrow> user_profile \<Rightarrow> event \<Rightarrow> (py_error + scored_event) \<times> 'v" where
  "score_event env v user_profile ev =
     (case calculate_similarity_score env v user_profile ev of
        (Inl e, v') \<Rightarrow> (Inl e, v')
      | (Inr s, v') \<Rightarrow>
          (case (if no_preferences user_profile then cold_start_score env ev else Inr s) of
             Inl e \<Rightarrow> (Inl e, v')
           | Inr s' \<Rightarrow>
               (Inr \<lparr>sc_event = ev, sc_score = s', sc_confidence = confidence_of s'\<rparr>, v')))"

fun score_events ::
  "'v env \<Rightarrow> 'v \<Rightarrow> user_profile \<Rightarrow> event list \<Rightarrow> (py_error + scored_event list) \<times> 'v" where
  "score_events env v user_profile [] = (Inr [], v)"
| "score_events env v user_profile (ev # evs) =
     (case score_event env v user_profile ev of
        (Inl e, v') \<Rightarrow> (Inl e, v')
      | (Inr s, v') \<Rightarrow>
          (case score_events env v' user_profile evs of
             (Inl e, v'') \<Rightarrow> (Inl e, v'')
           | (Inr ss, v'') \<Rightarrow> (Inr (s # ss), v'')))"

text \<open>\<^verbatim>\<open>', '.join(strs)\<close>.\<close>

fun join_comma :: "string list \<Rightarrow> string" where
  "join_comma [] = []"
| "join_comma [p] = p"
| "join_comma (p # q # ps) = p @ '', '' @ join_comma (q # ps)"

text \<open>\<^verbatim>\<open>_get_match_factors\<close>, lines 242 to 274. The f-string prints a missing category
  as \<^verbatim>\<open>None\<close>.\<close>

definition get_match_factors :: "'v env \<Rightarrow> user_profile \<Rightarrow> event \<Rightarrow> py_error + string list" where
  "get_match_factors env user_profile ev =
     (case get_lower (category ev) of
        Inl e \<Rightarrow> Inl e
      | Inr event_category \<Rightarrow>
          (let f1 = (if event_category \<in> set (map lower (favorite_categories user_profile))
                     then [''Matches your interest in ''
                             @ (case category ev of Val c \<Rightarrow> c | _ \<Rightarrow> ''None'')]
                     else []);
               matching_tags = filter (tag_matches (lower_tags ev)) (favorite_tags user_profile);
               f2 = (if matching_tags \<noteq> []
                     then [''Matches your tags: '' @ join_comma (take 2 matching_tags)]
                     else []);
               f3 = (case days_away env ev of
                       None \<Rightarrow> []
                     | Some n \<Rightarrow>
                         if 0 \<le> n \<and> n \<le> 7 then [''Happening soon'']
                         else if 8 \<le> n \<and> n \<le> 30 then [''Upcoming event'']
                         else []);
               factors = f1 @ f2 @ f3
           in Inr (if factors \<noteq> [] then factors else [''Based on your preferences''])))"

text \<open>\<^verbatim>\<open>_generate_reason\<close>, lines 276 to 290.\<close>

definition generate_reason :: "real \<Rightarrow> string list \<Rightarrow> string" where
  "generate_reason s match_factors =
     (let base = (if 70 \<le> s then ''Highly recommended''
                  else if 50 \<le> s then ''Good match''
                  else if 30 \<le> s then ''May interest you''
                  else ''Based on your activity'')
      in case match_factors of
           f # _ \<Rightarrow> base @ '': '' @ f
         | [] \<Rightarrow> base @ '' based on your event preferences and history'')"

text \<open>The body of the loop of lines 220 to 238, for one scored event.\<close>

definition format_recommendation ::
  "'v env \<Rightarrow> user_profile \<Rightarrow> scored_event \<Rightarrow> py_error + recommendation" where
  "format_recommendation env user_profile item =
     (case get_match_factors env user_profile (sc_event item) of
        Inl e \<Rightarrow> Inl e
      | Inr match_factors \<Rightarrow>
          Inr \<lparr>eventId = ev_id (sc_event item),
               r_title = (case title (sc_event item) of Val t \<Rightarrow> Some t | _ \<Rightarrow> None),
               reason = generate_reason (sc_score item) match_factors,
               confidence = sc_confidence item,
               score = round2 (sc_score item),
               matchFactors = match_factors\<rparr>)"

fun format_all ::
  "'v env \<Rightarrow> user_profile \<Rightarrow> scored_event list \<Rightarrow> py_error + recommendation list" where
  "format_all env user_profile [] = Inr []"
| "format_all env user_profile (item # items) =
     (case format_recommendation env user_profile item of
        Inl e \<Rightarrow> Inl e
      | Inr r \<Rightarrow>
          (case format_all env user_profile items of
             Inl e \<Rightarrow> Inl e
           | Inr rs \<Rightarrow> Inr (r # rs)))"

text \<open>\<^verbatim>\<open>get_recommendations\<close>, lines 153 to 240.\<close>

definition get_recommendations ::
  "'v env \<Rightarrow> 'v \<Rightarrow> user_profile \<Rightarrow> event list \<Rightarrow> int \<Rightarrow> (py_error + recommendation list) \<times> 'v"
  where
  "get_recommendations env v user_profile available_events top_n =
     (if available_events = [] then (Inr [], v)
      else (case score_events env v user_profile available_events of
              (Inl e, v') \<Rightarrow> (Inl e, v')
            | (Inr scored_events, v') \<Rightarrow>
                (format_all env user_profile (py_take top_n (sort_desc sc_score scored_events)),
                 v')))"

subsection \<open>The endpoint's fallback\<close>

text \<open>
  \<^verbatim>\<open>get_personalized_recommendations\<close> of \<^verbatim>\<open>analytics.py\<close>, from the candidate events
  the store returned (line 190) to the recommendation list (line 232). The participant
  counts that the store reports, per event id, are the parameter \<open>counts\<close>. The items of the
  fallback carry the whole event and other keys than the items of the service.
\<close>

record popular_recommendation =
  p_event :: event
  p_score :: real
  p_confidence :: int
  p_reason :: string
  p_matchFactors :: "string list"

datatype response_item = Personal recommendation | Popular popular_recommendation

text \<open>Lines 193 to 202.\<close>

definition with_counts :: "(string \<Rightarrow> nat) \<Rightarrow> event \<Rightarrow> event" where
  "with_counts counts ev =
     ev\<lparr>current_participants := Val (int (counts (ev_id ev))),
        max_participants := Some (case max_participants ev of None \<Rightarrow> 0 | Some m \<Rightarrow> m)\<rparr>"

text \<open>
  The sort key of lines 217 to 220, \<open>(participants, - days until the event)\<close>; an event
  without a date counts as 999 days away. \<^verbatim>\<open>fromisoformat\<close> is not guarded here, and a
  count of \<^verbatim>\<open>None\<close> cannot be compared.
\<close>

definition popularity_key :: "'v env \<Rightarrow> event \<Rightarrow> py_error + int \<times> int" where
  "popularity_key env e =
     (case (case current_participants e of
              Missing \<Rightarrow> Inr 0 | Null \<Rightarrow> Inl TypeError | Val c \<Rightarrow> Inr c) of
        Inl err \<Rightarrow> Inl err
      | Inr current \<Rightarrow>
          (case date e of
             None \<Rightarrow> Inr (current, - 999)
           | Some d \<Rightarrow>
               if d = [] then Inr (current, - 999)
               else (case fromisoformat env d of
                       None \<Rightarrow> Inl ValueError
                     | Some day \<Rightarrow> Inr (current, - (day - today env)))))"

fun popularity_keys :: "'v env \<Rightarrow> event list \<Rightarrow> py_error + ((int \<times> int) \<times> event) list" where
  "popularity_keys env [] = Inr []"
| "popularity_keys env (e # es) =
     (case popularity_key env e of
        Inl err \<Rightarrow> Inl err
      | Inr k \<Rightarrow>
          (case popularity_keys env es of
             Inl err \<Rightarrow> Inl err
           | Inr ks \<Rightarrow> Inr ((k, e) # ks)))"

text \<open>\<^verbatim>\<open>sorted(available_events, key=..., reverse=True)\<close> on the pairs: descending on the
  pair is ascending on the pair of the negated components.\<close>

definition sort_by_popularity :: "((int \<times> int) \<times> event) list \<Rightarrow> event list" where
  "sort_by_popularity keyed = map snd (sort_key (\<lambda>(k, e). (- fst k, - snd k)) keyed)"

definition popular_item :: "event \<Rightarrow> response_item" where
  "popular_item e =
     Popular \<lparr>p_event = e, p_score = 50, p_confidence = 5,
              p_reason = ''Popular upcoming event - check it out!'',
              p_matchFactors = [''Popular event'', ''Upcoming soon'']\<rparr>"

definition get_personalized_recommendations ::
  "'v env \<Rightarrow> 'v \<Rightarrow> (string \<Rightarrow> nat) \<Rightarrow> user_profile \<Rightarrow> event list \<Rightarrow> int
     \<Rightarrow> (py_error + response_item list) \<times> 'v" where
  "get_personalized_recommendations env v counts user_profile events_response top_n =
     (let available_events = map (with_counts counts) events_response in
      case get_recommendations env v user_profile available_events top_n of
        (Inl err, v') \<Rightarrow> (Inl err, v')
      | (Inr recommendations, v') \<Rightarrow>
          if recommendations = [] \<and> available_events \<noteq> [] then
            (case popularity_keys env available_events of
               Inl err \<Rightarrow> (Inl err, v')
             | Inr keyed \<Rightarrow>
                 (Inr (map popular_item (py_take top_n (sort_by_popularity keyed))), v'))
          else (Inr (map Personal recommendations), v'))"

subsection \<open>The profile builder\<close>

text \<open>
  \<^verbatim>\<open>build_user_profile\<close> of \<^verbatim>\<open>analytics.py\<close>, lines 66 to 139, on the rows the store
  returned: the signup preferences, the events the user created, the participation rows
  and the events fetched for them. A Python dictionary keeps its keys in the order of
  their first insertion, so the weight tables are association lists.
\<close>

record event_row =
  row_id :: string
  row_title :: "string field"
  row_category :: "string option"
  row_tags :: "string list option"

record participation =
  event_id :: "string option"
  status :: string

text \<open>\<^verbatim>\<open>d[k] = d.get(k, 0) + w\<close>.\<close>

fun bump :: "string \<Rightarrow> int \<Rightarrow> (string \<times> int) list \<Rightarrow> (string \<times> int) list" where
  "bump k w [] = [(k, w)]"
| "bump k w ((k', n) # d) = (if k = k' then (k', n + w) # d else (k', n) # bump k w d)"

text \<open>The loops of lines 81 to 87 and 96 to 98: every non-empty label gets the weight.\<close>

fun bump_all :: "int \<Rightarrow> string list \<Rightarrow> (string \<times> int) list \<Rightarrow> (string \<times> int) list" where
  "bump_all w [] d = d"
| "bump_all w (k # ks) d = bump_all w ks (if k \<noteq> [] then bump k w d else d)"

text \<open>\<^verbatim>\<open>event.get('category')\<close> when it is a non-empty string, \<^verbatim>\<open>event.get('tags', []) or []\<close>.\<close>

definition row_category_list :: "event_row \<Rightarrow> string list" where
  "row_category_list r = (case row_category r of None \<Rightarrow> [] | Some c \<Rightarrow> [c])"

definition row_tag_list :: "event_row \<Rightarrow> string list" where
  "row_tag_list r = (case row_tags r of None \<Rightarrow> [] | Some ts \<Rightarrow> ts)"

text \<open>\<^verbatim>\<open>participation_events = {e['id']: e for e in rows}\<close>: of two rows with one id the later
  one stays. The participations that count are those with an id in that dictionary.\<close>

definition participation_events :: "event_row list \<Rightarrow> string \<Rightarrow> event_row option" where
  "participation_events rows = map_of (rev (map (\<lambda>e. (row_id e, e)) rows))"

definition resolved :: "event_row list \<Rightarrow> participation list \<Rightarrow> event_row list" where
  "resolved rows participations =
     List.map_filter
       (\<lambda>p. case event_id p of
               None \<Rightarrow> None
             | Some i \<Rightarrow> if i = [] then None else participation_events rows i)
       participations"

text \<open>Lines 76 to 112, one table at a time: the loops over the signup preferences, the
  created events and the resolved participations write to two separate dictionaries.\<close>

definition category_weights ::
  "string list \<Rightarrow> event_row list \<Rightarrow> event_row list \<Rightarrow> (string \<times> int) list" where
  "category_weights initial_categories user_events joined =
     foldl (\<lambda>d r. bump_all 2 (row_category_list r) d)
       (foldl (\<lambda>d r. bump_all 2 (row_category_list r) d)
          (bump_all 1 initial_categories []) user_events)
       joined"

definition tag_weights ::
  "string list \<Rightarrow> event_row list \<Rightarrow> event_row list \<Rightarrow> (string \<times> int) list" where
  "tag_weights initial_tags user_events joined =
     foldl (\<lambda>d r. bump_all 2 (row_tag_list r) d)
       (foldl (\<lambda>d r. bump_all 2 (row_tag_list r) d)
          (bump_all 1 initial_tags []) user_events)
       joined"

text \<open>Lines 121 to 125: \<^verbatim>\<open>sorted(d.items(), key=lambda x: x[1], reverse=True)[:n]\<close>, and the
  signup list when nothing was weighted.\<close>

definition top_labels :: "nat \<Rightarrow> (string \<times> int) list \<Rightarrow> string list" where
  "top_labels n d = map fst (take n (sort_desc snd d))"

definition favourites :: "nat \<Rightarrow> (string \<times> int) list \<Rightarrow> string list \<Rightarrow> string list" where
  "favourites n d initial = (if top_labels n d \<noteq> [] then top_labels n d else take n initial)"

definition history_of :: "event_row \<Rightarrow> history_item" where
  "history_of r =
     \<lparr>h_title = (case row_title r of Missing \<Rightarrow> Some [] | Null \<Rightarrow> None | Val t \<Rightarrow> Some t),
      h_category = (case row_category r of None \<Rightarrow> [] | Some c \<Rightarrow> c),
      h_tags = row_tag_list r\<rparr>"

definition build_user_profile ::
  "string list \<Rightarrow> string list \<Rightarrow> event_row list \<Rightarrow> participation list \<Rightarrow> event_row list
     \<Rightarrow> user_profile" where
  "build_user_profile initial_categories initial_tags user_events participations rows =
     (let joined = resolved rows participations;
          no_history = (user_events = [] \<and> participations = [])
      in \<lparr>favorite_categories =
             (if no_history then take 3 initial_categories
              else favourites 3 (category_weights initial_categories user_events joined)
                     initial_categories),
           favorite_tags =
             (if no_history then take 5 initial_tags
              else favourites 5 (tag_weights initial_tags user_events joined) initial_tags),
           participation_history = map history_of joined,
           events_created = length user_events,
           events_attended = length (filter (\<lambda>p. status p = ''attended'') participations),
           has_initial_preferences = (initial_categories \<noteq> [] \<or> initial_tags \<noteq> [])\<rparr>)"

subsection \<open>The statements of the specification\<close>



text \<open>
  The confidence in the words of the specification, \<open>clamp(round(score / 10), 1, 10)\<close>;
  \<open>round\<close> is rounding to the nearest integer.
\<close>

definition spec_confidence :: "real \<Rightarrow> int" where
  "spec_confidence s = min 10 (max 1 (round (s / 10)))"

text \<open>
  The interest weights in the words of the specification. Every occurrence of a label
  in the signup preferences contributes 1; the category and each tag of every created
  event and of every resolved participation contribute 2. The weight of a label is the
  sum of its contributions, an empty label counts for nothing, and the labels are kept in
  the order in which they were first seen.
\<close>

definition category_contributions ::
  "string list \<Rightarrow> event_row list \<Rightarrow> event_row list \<Rightarrow> (string \<times> int) list" where
  "category_contributions initial_categories user_events joined =
     map (\<lambda>c. (c, 1)) initial_categories
     @ map (\<lambda>c. (c, 2)) (concat (map row_category_list (user_events @ joined)))"

definition tag_contributions ::
  "string list \<Rightarrow> event_row list \<Rightarrow> event_row list \<Rightarrow> (string \<times> int) list" where
  "tag_contributions initial_tags user_events joined =
     map (\<lambda>t. (t, 1)) initial_tags
     @ map (\<lambda>t. (t, 2)) (concat (map row_tag_list (user_events @ joined)))"

definition total_weight :: "(string \<times> int) list \<Rightarrow> string \<Rightarrow> int" where
  "total_weight cs k = sum_list (map snd (filter (\<lambda>c. fst c = k) cs))"

definition first_seen :: "string list \<Rightarrow> string list" where
  "first_seen ks = rev (remdups (rev ks))"

definition weight_table :: "(string \<times> int) list \<Rightarrow> (string \<times> int) list" where
  "weight_table cs =
     (let labelled = filter (\<lambda>c. fst c \<noteq> []) cs
      in map (\<lambda>k. (k, total_weight labelled k)) (first_seen (map fst labelled)))"



subsection \<open>Sample inputs\<close>

text \<open>
  The inputs at which the theorems below are instantiated. The request is made on
  2026-11-04, day 20761 of the epoch; both date parsers know the dates of
  \<open>sample_calendar\<close> and reject every other string. The vectorizer of \<open>sample_env sim\<close>
  answers every pair of texts with \<open>sim\<close> and keeps the pair it was fitted on; \<open>Some 0\<close> is
  the library's answer for two texts without a common term, \<open>None\<close> its failure.
\<close>

definition sample_calendar :: "string \<Rightarrow> int option" where
  "sample_calendar =
     map_of [(''2026-11-04'', 20761), (''2026-11-08'', 20765), (''2026-11-20'', 20777),
             (''2026-12-24'', 20811)]"

definition sample_env :: "real option \<Rightarrow> (string list) env" where
  "sample_env sim =
     \<lparr>fit_similarity = (\<lambda>v u e. (sim, case sim of None \<Rightarrow> v | Some _ \<Rightarrow> [u, e])),
      fromisoformat = sample_calendar, strptime_ymd = sample_calendar, today = 20761\<rparr>"

definition art_profile :: user_profile where
  "art_profile =
     \<lparr>favorite_categories = [''Art''], favorite_tags = [], participation_history = [],
      events_created = 1, events_attended = 0, has_initial_preferences = False\<rparr>"

definition beach_party :: event where
  "beach_party =
     \<lparr>ev_id = ''e1'', title = Val ''Beach Party'', description = Val ''Summer fun'',
      category = Val ''Party'', tags = None, date = Some ''2026-11-08'',
      current_participants = Val 40, max_participants = Some 100\<rparr>"

definition street_party :: event where
  "street_party =
     \<lparr>ev_id = ''e2'', title = Val ''Street Party'', description = Val ''Summer fun'',
      category = Val ''Party'', tags = None, date = Some ''2026-11-04'',
      current_participants = Val 40, max_participants = Some 100\<rparr>"

definition garden_party :: event where
  "garden_party =
     \<lparr>ev_id = ''e3'', title = Val ''Garden Party'', description = Val ''Summer fun'',
      category = Val ''Party'', tags = None, date = Some ''2026-11-08'',
      current_participants = Val 40, max_participants = Some 100\<rparr>"



text \<open>What the service returns for \<open>art_profile\<close> on the three parties with \<open>top_n = 2\<close>,
  and for \<open>new_user\<close> on the gala and the beach party.\<close>

definition party_ranking :: "recommendation list" where
  "party_ranking =
     [\<lparr>eventId = ''e2'', r_title = Some ''Street Party'',
       reason = ''May interest you: Happening soon'', confidence = 4, score = 40,
       matchFactors = [''Happening soon'']\<rparr>,
      \<lparr>eventId = ''e1'', r_title = Some ''Beach Party'',
       reason = ''May interest you: Happening soon'', confidence = 3, score = 38,
       matchFactors = [''Happening soon'']\<rparr>]"


text \<open>Three events that share no term and no category with \<open>art_profile\<close>, lie 50 days
  ahead and are filled to less than a tenth; the store reports 5, 2 and 8 participants.\<close>

definition chess_open :: event where
  "chess_open =
     \<lparr>ev_id = ''e5'', title = Val ''Chess Open'', description = Val ''Rapid tournament'',
      category = Val ''Games'', tags = None, date = Some ''2026-12-24'',
      current_participants = Val 5, max_participants = Some 100\<rparr>"

definition book_club :: event where
  "book_club =
     \<lparr>ev_id = ''e6'', title = Val ''Book Club'', description = Val ''Monthly reading'',
      category = Val ''Books'', tags = None, date = Some ''2026-12-24'',
      current_participants = Val 2, max_participants = Some 100\<rparr>"

definition coding_dojo :: event where
  "coding_dojo =
     \<lparr>ev_id = ''e7'', title = Val ''Coding Dojo'', description = Val ''Kata practice'',
      category = Val ''Tech'', tags = None, date = Some ''2026-12-24'',
      current_participants = Val 8, max_participants = Some 100\<rparr>"

definition sample_counts :: "string \<Rightarrow> nat" where
  "sample_counts i =
     (if i = ''e5'' then 5 else if i = ''e6'' then 2 else if i = ''e7'' then 8 else 0)"

definition zero_ranking :: "recommendation list" where
  "zero_ranking =
     [\<lparr>eventId = ''e5'', r_title = Some ''Chess Open'',
       reason = ''Based on your activity: Based on your preferences'', confidence = 1,
       score = 0, matchFactors = [''Based on your preferences'']\<rparr>,
      \<lparr>eventId = ''e6'', r_title = Some ''Book Club'',
       reason = ''Based on your activity: Based on your preferences'', confidence = 1,
       score = 0, matchFactors = [''Based on your preferences'']\<rparr>,
      \<lparr>eventId = ''e7'', r_title = Some ''Coding Dojo'',
       reason = ''Based on your activity: Based on your preferences'', confidence = 1,
       score = 0, matchFactors = [''Based on your preferences'']\<rparr>]"

text \<open>A user who signed up with two categories and one tag, created one event and has
  three participation rows, one of them for an event that no longer exists; and an event
  without a category.\<close>

definition signup_categories :: "string list" where
  "signup_categories = [''Music'', ''Art'']"

definition signup_tags :: "string list" where
  "signup_tags = [''live'']"

definition created_rows :: "event_row list" where
  "created_rows =
     [\<lparr>row_id = ''u1'', row_title = Val ''PyCon Meetup'', row_category = Some ''Tech'',
       row_tags = Some [''python'', ''ai'']\<rparr>]"

definition participation_rows :: "participation list" where
  "participation_rows =
     [\<lparr>event_id = Some ''x1'', status = ''attended''\<rparr>,
      \<lparr>event_id = Some ''x2'', status = ''registered''\<rparr>,
      \<lparr>event_id = Some ''gone'', status = ''registered''\<rparr>]"

definition fetched_rows :: "event_row list" where
  "fetched_rows =
     [\<lparr>row_id = ''x1'', row_title = Val ''Jazz Night'', row_category = Some ''Music'',
       row_tags = Some [''live'', ''jazz'']\<rparr>,
      \<lparr>row_id = ''x2'', row_title = Val ''Hack Day'', row_category = Some ''Tech'',
       row_tags = Some [''python'']\<rparr>]"


section \<open>Properties\<close>

subsection \<open>Rounding and slicing\<close>


lemma round_half_even_of_int: "round_half_even (of_int n) = n"
  by (simp add: round_half_even_def)

lemma round_half_even_mono:
  assumes le: "x \<le> y"
  shows "round_half_even x \<le> round_half_even y"
proof (cases "\<lfloor>x\<rfloor> = \<lfloor>y\<rfloor>")
  case True
  with le show ?thesis
    unfolding round_half_even_def Let_def by auto
next
  case False
  with floor_mono[OF le] have lt: "\<lfloor>x\<rfloor> + 1 \<le> \<lfloor>y\<rfloor>" by simp
  have a: "round_half_even x \<le> \<lfloor>x\<rfloor> + 1"
    unfolding round_half_even_def Let_def by auto
  have b: "\<lfloor>y\<rfloor> \<le> round_half_even y"
    unfolding round_half_even_def Let_def by auto
  from a b lt show ?thesis by linarith
qed

lemma round2_mono: "x \<le> y \<Longrightarrow> round2 x \<le> round2 y"
  unfolding round2_def by (simp add: round_half_even_mono divide_right_mono)

lemma round2_of_int: "round2 (of_int n) = of_int n"
proof -
  have "of_int n * (100::real) = of_int (n * 100)" by simp
  then show ?thesis
    unfolding round2_def by (simp only: round_half_even_of_int)
qed

lemma round2_range: "0 \<le> x \<Longrightarrow> x \<le> 100 \<Longrightarrow> 0 \<le> round2 x \<and> round2 x \<le> 100"
  using round2_mono[of 0 x] round2_mono[of x 100] round2_of_int[of 0] round2_of_int[of 100]
  by simp

lemma set_py_take: "set (py_take n xs) \<subseteq> set xs"
  by (auto simp: py_take_def dest: in_set_takeD)

lemma length_py_take:
  "length (py_take n xs) =
     (if 0 \<le> n then min (nat n) (length xs) else nat (int (length xs) + n))"
  by (auto simp: py_take_def)

subsection \<open>Scores and confidences\<close>

lemma calculate_similarity_score_range:
  "fst (calculate_similarity_score env v p ev) = Inr s \<Longrightarrow> 0 \<le> s \<and> s \<le> 100"
  by (auto simp: calculate_similarity_score_def split: sum.splits prod.splits)

lemma confidence_of_range: "1 \<le> confidence_of s \<and> confidence_of s \<le> 10"
  by (simp add: confidence_of_def)

lemma cold_start_score_range:
  "cold_start_score env ev = Inr s \<Longrightarrow> 40 \<le> s \<and> s \<le> 70"
  by (auto simp: cold_start_score_def cold_start_popularity_def cold_start_date_def Let_def
      split: sum.splits if_splits option.splits field.splits)

lemma score_event_props:
  "score_event env v p ev = (Inr x, v') \<Longrightarrow>
     sc_event x = ev \<and> sc_confidence x = confidence_of (sc_score x)
     \<and> 0 \<le> sc_score x \<and> sc_score x \<le> 100"
  unfolding score_event_def
  apply (auto split: sum.splits prod.splits if_splits dest!: cold_start_score_range)
  using calculate_similarity_score_range apply (metis fst_conv)+
  done

lemma score_events_props:
  "score_events env v p evs = (Inr xs, v') \<Longrightarrow>
     map sc_event xs = evs \<and>
     (\<forall>x\<in>set xs. sc_confidence x = confidence_of (sc_score x)
        \<and> 0 \<le> sc_score x \<and> sc_score x \<le> 100)"
proof (induction evs arbitrary: v xs)
  case Nil
  then show ?case by simp
next
  case (Cons ev evs)
  then show ?case
    by (auto split: sum.splits prod.splits dest!: score_event_props)
qed

lemma format_all_props:
  "format_all env p items = Inr rs \<Longrightarrow>
     map confidence rs = map sc_confidence items \<and>
     map score rs = map (\<lambda>x. round2 (sc_score x)) items \<and>
     map eventId rs = map (\<lambda>x. ev_id (sc_event x)) items"
proof (induction items arbitrary: rs)
  case Nil
  then show ?case by simp
next
  case (Cons item items)
  then show ?case
    by (auto simp: format_recommendation_def split: sum.splits)
qed

lemma get_recommendations_shape:
  "get_recommendations env v p evs n = (Inr rs, v') \<Longrightarrow> evs \<noteq> [] \<Longrightarrow>
     \<exists>scored. score_events env v p evs = (Inr scored, v') \<and>
        format_all env p (py_take n (sort_desc sc_score scored)) = Inr rs"
  by (auto simp: get_recommendations_def split: sum.splits prod.splits if_splits)

text \<open>
  Claim C1. Whenever \<open>calculate_similarity_score\<close> returns a score, the score lies in
  \<open>[0, 100]\<close>; and every recommendation that \<open>get_recommendations\<close> returns, for any
  profile (one without preferences, scored by the cold-start rule, included), carries a
  confidence in \<open>[1, 10]\<close>, never 0, and a score in \<open>[0, 100]\<close>.
\<close>

theorem score_and_confidence_bounds:
  "(fst (calculate_similarity_score env v p ev) = Inr s \<longrightarrow> 0 \<le> s \<and> s \<le> 100) \<and>
   (fst (get_recommendations env v p evs n) = Inr rs \<longrightarrow>
      (\<forall>r\<in>set rs. 1 \<le> confidence r \<and> confidence r \<le> 10 \<and> 0 \<le> score r \<and> score r \<le> 100))"
proof (intro conjI impI ballI)
  assume "fst (calculate_similarity_score env v p ev) = Inr s"
  from calculate_similarity_score_range[OF this]
  show "0 \<le> s" "s \<le> 100" by simp_all
next
  fix r
  assume ret: "fst (get_recommendations env v p evs n) = Inr rs" and r: "r \<in> set rs"
  then have ne: "evs \<noteq> []" by (auto simp: get_recommendations_def)
  obtain v' where "get_recommendations env v p evs n = (Inr rs, v')"
    using ret by (cases "get_recommendations env v p evs n") simp
  from get_recommendations_shape[OF this ne] obtain scored where
    sc: "score_events env v p evs = (Inr scored, v')" and
    fm: "format_all env p (py_take n (sort_desc sc_score scored)) = Inr rs" by blast
  let ?items = "py_take n (sort_desc sc_score scored)"
  from format_all_props[OF fm] have
    c: "map confidence rs = map sc_confidence ?items" and
    s: "map score rs = map (\<lambda>x. round2 (sc_score x)) ?items" by simp_all
  from r obtain i where i: "i < length rs" "rs ! i = r" by (auto simp: in_set_conv_nth)
  have len: "length ?items = length rs" using c by (metis length_map)
  have it: "?items ! i \<in> set scored"
    using i len set_py_take[of n "sort_desc sc_score scored"]
    by (metis nth_mem set_sort sort_desc_def subsetD)
  have ci: "confidence r = sc_confidence (?items ! i)"
    using c i len by (metis nth_map)
  have si: "score r = round2 (sc_score (?items ! i))"
    using s i len by (metis (no_types, lifting) nth_map)
  from score_events_props[OF sc] it have
    p: "sc_confidence (?items ! i) = confidence_of (sc_score (?items ! i))"
       "0 \<le> sc_score (?items ! i)" "sc_score (?items ! i) \<le> 100" by blast+
  show "1 \<le> confidence r" "confidence r \<le> 10" using ci p(1) confidence_of_range by simp_all
  show "0 \<le> score r" "score r \<le> 100" using si round2_range[OF p(2,3)] by simp_all
qed

theorem score_and_confidence_bounds_witness:
  "fst (calculate_similarity_score (sample_env (Some 0)) [] art_profile beach_party) = Inr 38
   \<and> fst (get_recommendations (sample_env (Some 0)) [] art_profile [beach_party] 5) =
       Inr [\<lparr>eventId = ''e1'', r_title = Some ''Beach Party'',
             reason = ''May interest you: Happening soon'', confidence = 3, score = 38,
             matchFactors = [''Happening soon'']\<rparr>]
   \<and> (0::real) \<le> 38 \<and> (38::real) \<le> 100
   \<and> (1::int) \<le> 3 \<and> (3::int) \<le> 10"
proof -
  have h1: "fst (calculate_similarity_score (sample_env (Some 0)) [] art_profile beach_party)
              = Inr 38"
    by code_simp
  have h2: "fst (get_recommendations (sample_env (Some 0)) [] art_profile [beach_party] 5) =
       Inr [\<lparr>eventId = ''e1'', r_title = Some ''Beach Party'',
             reason = ''May interest you: Happening soon'', confidence = 3, score = 38,
             matchFactors = [''Happening soon'']\<rparr>]"
    by code_simp
  from h1 h2
    score_and_confidence_bounds[of "sample_env (Some 0)" "[]" art_profile beach_party 38
      "[beach_party]" 5
      "[\<lparr>eventId = ''e1'', r_title = Some ''Beach Party'',
             reason = ''May interest you: Happening soon'', confidence = 3, score = 38,
             matchFactors = [''Happening soon'']\<rparr>]"]
  show ?thesis by simp
qed

subsection \<open>Ranking\<close>

lemma sort_desc_sorted: "sorted_wrt (\<lambda>a b. k b \<le> k a) (sort_desc k (xs :: 'a list))"
  for k :: "'a \<Rightarrow> 'b::linordered_ab_group_add"
proof -
  have "sorted (map (\<lambda>x. - k x) (sort_desc k xs))"
    unfolding sort_desc_def by (rule sorted_sort_key)
  then show ?thesis by (simp add: sorted_map)
qed

lemma sort_desc_stable:
  "filter (\<lambda>x. k x = c) (sort_desc k xs) = filter (\<lambda>x. k x = c) xs"
  for k :: "'a \<Rightarrow> 'b::linordered_ab_group_add"
  using sort_key_stable[of "\<lambda>x. - k x" "- c" xs] by (simp add: sort_desc_def)

lemma length_sort_desc: "length (sort_desc k xs) = length xs"
  by (simp add: sort_desc_def)

lemma set_sort_desc: "set (sort_desc k xs) = set xs"
  by (simp add: sort_desc_def)


text \<open>
  Claim C2. For a non-empty candidate list and \<open>top_n \<ge> 0\<close>, the list that
  \<open>get_recommendations\<close> returns has length \<open>min top_n (number of candidates)\<close>. It is the
  prefix of a ranking of all scored candidates that is sorted by score, highest first,
  and stable: the candidates with one and the same score stand in it in the order of the
  input list. The scores shown on the recommendations descend as well.
\<close>

theorem ranking_sorted_stable:
  assumes ne: "evs \<noteq> []" and n: "0 \<le> top_n"
    and ret: "get_recommendations env v p evs top_n = (Inr rs, v')"
  shows "\<exists>scored ranked.
      fst (score_events env v p evs) = Inr scored \<and> map sc_event scored = evs
    \<and> length ranked = length evs
    \<and> sorted_wrt (\<lambda>a b. sc_score b \<le> sc_score a) ranked
    \<and> (\<forall>k. filter (\<lambda>x. sc_score x = k) ranked = filter (\<lambda>x. sc_score x = k) scored)
    \<and> length rs = min (nat top_n) (length evs)
    \<and> map eventId rs = map (\<lambda>x. ev_id (sc_event x)) (take (nat top_n) ranked)
    \<and> map score rs = map (\<lambda>x. round2 (sc_score x)) (take (nat top_n) ranked)
    \<and> sorted_wrt (\<lambda>a b. score b \<le> score a) rs"
proof -
  from get_recommendations_shape[OF ret ne] obtain scored where
    sc: "score_events env v p evs = (Inr scored, v')" and
    fm: "format_all env p (py_take top_n (sort_desc sc_score scored)) = Inr rs" by blast
  let ?ranked = "sort_desc sc_score scored"
  have tk: "py_take top_n ?ranked = take (nat top_n) ?ranked"
    using n by (simp add: py_take_def)
  from score_events_props[OF sc] have ev: "map sc_event scored = evs" by simp
  then have len: "length scored = length evs" by (metis length_map)
  from format_all_props[OF fm] tk have
    ids: "map eventId rs = map (\<lambda>x. ev_id (sc_event x)) (take (nat top_n) ?ranked)" and
    scs: "map score rs = map (\<lambda>x. round2 (sc_score x)) (take (nat top_n) ?ranked)"
    by simp_all
  have lrs: "length rs = min (nat top_n) (length evs)"
    using ids len by (metis length_map length_take length_sort_desc min.commute)
  have srt: "sorted_wrt (\<lambda>a b. sc_score b \<le> sc_score a) ?ranked"
    by (rule sort_desc_sorted)
  then have "sorted_wrt (\<lambda>a b. sc_score b \<le> sc_score a) (take (nat top_n) ?ranked)"
    by (rule sorted_wrt_take)
  then have "sorted_wrt (\<lambda>a b. round2 (sc_score b) \<le> round2 (sc_score a)) (take (nat top_n) ?ranked)"
    by (rule sorted_wrt_mono_rel[rotated]) (simp add: round2_mono)
  then have "sorted_wrt (\<lambda>a b. b \<le> a) (map (\<lambda>x. round2 (sc_score x)) (take (nat top_n) ?ranked))"
    by (simp add: sorted_wrt_map)
  then have "sorted_wrt (\<lambda>a b. b \<le> a) (map score rs)" by (simp only: scs)
  then have srs: "sorted_wrt (\<lambda>a b. score b \<le> score a) rs" by (simp add: sorted_wrt_map)
  show ?thesis
    apply (rule exI[of _ scored], rule exI[of _ ?ranked])
    using sc ev len ids scs lrs srt srs by (simp add: length_sort_desc sort_desc_stable)
qed


theorem ranking_sorted_stable_witness:
  "get_recommendations (sample_env (Some 0)) [] art_profile
     [beach_party, street_party, garden_party] 2 =
     (Inr party_ranking, [''art'', ''garden party summer fun party''])
   \<and> (\<exists>scored ranked.
      fst (score_events (sample_env (Some 0)) [] art_profile
             [beach_party, street_party, garden_party]) = Inr scored
    \<and> map sc_event scored = [beach_party, street_party, garden_party]
    \<and> length ranked = length [beach_party, street_party, garden_party]
    \<and> sorted_wrt (\<lambda>a b. sc_score b \<le> sc_score a) ranked
    \<and> (\<forall>k. filter (\<lambda>x. sc_score x = k) ranked = filter (\<lambda>x. sc_score x = k) scored)
    \<and> length party_ranking = min (nat 2) (length [beach_party, street_party, garden_party])
    \<and> map eventId party_ranking = map (\<lambda>x. ev_id (sc_event x)) (take (nat 2) ranked)
    \<and> map score party_ranking = map (\<lambda>x. round2 (sc_score x)) (take (nat 2) ranked)
    \<and> sorted_wrt (\<lambda>a b. score b \<le> score a) party_ranking)"
proof -
  have h: "get_recommendations (sample_env (Some 0)) [] art_profile
     [beach_party, street_party, garden_party] 2 =
     (Inr party_ranking, [''art'', ''garden party summer fun party''])"
    by code_simp
  have ne: "[beach_party, street_party, garden_party] \<noteq> []" by simp
  have n: "(0::int) \<le> 2" by simp
  show ?thesis by (rule conjI[OF h ranking_sorted_stable[OF ne n h]])
qed

subsection \<open>Cold start\<close>












subsection \<open>Confidence\<close>

lemma py_int_nonneg: "0 \<le> x \<Longrightarrow> py_int x = \<lfloor>x\<rfloor>"
  by (simp add: py_int_def)

lemma format_all_list_all2:
  "format_all env p items = Inr rs \<Longrightarrow>
     list_all2 (\<lambda>r x. score r = round2 (sc_score x) \<and> confidence r = sc_confidence x
                  \<and> eventId r = ev_id (sc_event x)) rs items"
proof (induction items arbitrary: rs)
  case Nil
  then show ?case by simp
next
  case (Cons item items)
  then show ?case
    by (auto simp: format_recommendation_def split: sum.splits)
qed


text \<open>
  Claim C4, as stated, fails: the confidence is not \<open>clamp(round(s / 10), 1, 10)\<close>. The
  beach party scores 38 for \<open>art_profile\<close> (15 for the partial category match, 13 for the
  date four days ahead, 10 for the popularity 0.4); the service attaches confidence 3,
  and 38 / 10 rounds to 4.
\<close>

theorem confidence_rounds_counterexample:
  "fst (get_recommendations (sample_env (Some 0)) [] art_profile [beach_party] 5) =
     Inr [\<lparr>eventId = ''e1'', r_title = Some ''Beach Party'',
           reason = ''May interest you: Happening soon'', confidence = 3, score = 38,
           matchFactors = [''Happening soon'']\<rparr>]
   \<and> spec_confidence 38 = 4"
  by code_simp

text \<open>
  Claim C4, amended. The confidence on a returned recommendation is
  \<open>clamp(floor(s / 10), 1, 10)\<close> for the score \<open>s\<close> that the scoring loop gave the event,
  before \<open>s\<close> is rounded to two decimals for display: \<open>s / 10\<close> is truncated, not rounded.
\<close>

theorem confidence_truncates:
  assumes ret: "get_recommendations env v p evs top_n = (Inr rs, v')"
  shows "\<exists>items.
           list_all2 (\<lambda>r x. score r = round2 (sc_score x)
                         \<and> confidence r = min 10 (max 1 \<lfloor>sc_score x / 10\<rfloor>)
                         \<and> eventId r = ev_id (sc_event x)) rs items
           \<and> (evs = [] \<or> (\<exists>scored. fst (score_events env v p evs) = Inr scored
                               \<and> set items \<subseteq> set scored))"
proof (cases "evs = []")
  case True
  with ret have "rs = []" by (simp add: get_recommendations_def)
  with True show ?thesis by (intro exI[of _ "[]"]) simp
next
  case False
  from get_recommendations_shape[OF ret False] obtain scored where
    sc: "score_events env v p evs = (Inr scored, v')" and
    fm: "format_all env p (py_take top_n (sort_desc sc_score scored)) = Inr rs" by blast
  let ?items = "py_take top_n (sort_desc sc_score scored)"
  have sub: "set ?items \<subseteq> set scored"
    using set_py_take[of top_n "sort_desc sc_score scored"] by (simp add: set_sort_desc)
  have conf: "sc_confidence x = min 10 (max 1 \<lfloor>sc_score x / 10\<rfloor>)" if "x \<in> set ?items" for x
  proof -
    from that sub score_events_props[OF sc] have
      "sc_confidence x = confidence_of (sc_score x)" "0 \<le> sc_score x" by blast+
    then show ?thesis by (simp add: confidence_of_def py_int_nonneg)
  qed
  have "list_all2 (\<lambda>r x. score r = round2 (sc_score x)
                         \<and> confidence r = min 10 (max 1 \<lfloor>sc_score x / 10\<rfloor>)
                         \<and> eventId r = ev_id (sc_event x)) rs ?items"
    using format_all_list_all2[OF fm]
    by (rule list.rel_mono_strong) (simp add: conf)
  with sc sub show ?thesis by (intro exI[of _ ?items]) auto
qed


theorem confidence_truncates_witness:
  "get_recommendations (sample_env (Some 0)) [] art_profile
     [beach_party, street_party, garden_party] 2 =
     (Inr party_ranking, [''art'', ''garden party summer fun party''])
   \<and> (\<exists>items.
           list_all2 (\<lambda>r x. score r = round2 (sc_score x)
                         \<and> confidence r = min 10 (max 1 \<lfloor>sc_score x / 10\<rfloor>)
                         \<and> eventId r = ev_id (sc_event x)) party_ranking items
           \<and> ([beach_party, street_party, garden_party] = []
                \<or> (\<exists>scored. fst (score_events (sample_env (Some 0)) [] art_profile
                                   [beach_party, street_party, garden_party]) = Inr scored
                               \<and> set items \<subseteq> set scored)))"
proof -
  have h: "get_recommendations (sample_env (Some 0)) [] art_profile
     [beach_party, street_party, garden_party] 2 =
     (Inr party_ranking, [''art'', ''garden party summer fun party''])"
    by code_simp
  show ?thesis by (rule conjI[OF h confidence_truncates[OF h]])
qed

subsection \<open>Totality\<close>










lemma format_all_length: "format_all env p items = Inr rs \<Longrightarrow> length rs = length items"
  using format_all_props[of env p items rs] by (metis length_map)


lemma get_recommendations_length:
  assumes ret: "get_recommendations env v p evs top_n = (Inr rs, v')"
  shows "length rs = length (py_take top_n evs)"
proof (cases "evs = []")
  case True
  with ret show ?thesis by (simp add: get_recommendations_def py_take_def)
next
  case False
  from get_recommendations_shape[OF ret False] obtain scored where
    sc: "score_events env v p evs = (Inr scored, v')" and
    fm: "format_all env p (py_take top_n (sort_desc sc_score scored)) = Inr rs" by blast
  from score_events_props[OF sc] have "length scored = length evs" by (metis length_map)
  with format_all_length[OF fm] show ?thesis
    by (simp add: length_py_take length_sort_desc)
qed










subsection \<open>The fallback of the endpoint\<close>

lemma popularity_keys_length: "popularity_keys env es = Inr ks \<Longrightarrow> length ks = length es"
  by (induction es arbitrary: ks) (auto split: sum.splits)

lemma length_sort_by_popularity: "length (sort_by_popularity ks) = length ks"
  by (simp add: sort_by_popularity_def)


text \<open>
  Claim C5, as stated, fails. All three candidates score 0 for \<open>art_profile\<close>, and they are
  future events with 5, 2 and 8 participants. The endpoint returns the three entries of the
  service in the order of the input, each with score 0 and confidence 1; it does not
  return the fallback items in the order 8, 5, 2.
\<close>

theorem zero_scores_counterexample:
  "get_personalized_recommendations (sample_env (Some 0)) [] sample_counts art_profile
     [chess_open, book_club, coding_dojo] 5 =
     (Inr (map Personal zero_ranking), [''art'', ''coding dojo kata practice tech''])
   \<and> fst (get_personalized_recommendations (sample_env (Some 0)) [] sample_counts art_profile
           [chess_open, book_club, coding_dojo] 5)
       \<noteq> Inr (map popular_item [coding_dojo, chess_open, book_club])"
  by code_simp

text \<open>
  Claim C5, amended. Whatever the endpoint returns is the list of the service, entry for
  entry; no fallback item is ever returned. The fallback branch is entered only when the
  service returned the empty list for a non-empty candidate list, which needs
  \<open>top_n \<le> 0\<close> or \<open>- top_n\<close> at least the number of candidates, and the slice \<^verbatim>\<open>[:top_n]\<close>
  of the popularity ranking is then empty as well.
\<close>

theorem fallback_never_taken:
  assumes ret: "get_personalized_recommendations env v counts p evs top_n = (Inr items, v')"
  shows "\<exists>rs. get_recommendations env v p (map (with_counts counts) evs) top_n = (Inr rs, v')
           \<and> items = map Personal rs"
proof -
  let ?av = "map (with_counts counts) evs"
  from ret obtain rs where
    rs: "get_recommendations env v p ?av top_n = (Inr rs, v')"
    by (auto simp: get_personalized_recommendations_def Let_def
        split: sum.splits prod.splits if_splits)
  show ?thesis
  proof (cases "rs = [] \<and> ?av \<noteq> []")
    case False
    with ret rs have "items = map Personal rs"
      by (auto simp: get_personalized_recommendations_def Let_def split: if_splits)
    with rs show ?thesis by blast
  next
    case True
    with ret rs obtain keyed where
      k: "popularity_keys env ?av = Inr keyed" and
      it: "items = map popular_item (py_take top_n (sort_by_popularity keyed))"
      by (auto simp: get_personalized_recommendations_def Let_def split: sum.splits)
    from get_recommendations_length[OF rs] True have "length (py_take top_n ?av) = 0" by simp
    moreover have "length (sort_by_popularity keyed) = length ?av"
      using popularity_keys_length[OF k] by (simp add: length_sort_by_popularity)
    ultimately have "length (py_take top_n (sort_by_popularity keyed)) = 0"
      by (simp only: length_py_take)
    with it True have "items = map Personal rs" by simp
    with rs show ?thesis by blast
  qed
qed


theorem fallback_never_taken_witness:
  "get_personalized_recommendations (sample_env (Some 0)) [] sample_counts art_profile
     [chess_open, book_club, coding_dojo] 0 = (Inr [], [''art'', ''coding dojo kata practice tech''])
   \<and> (\<exists>rs. get_recommendations (sample_env (Some 0)) [] art_profile
              (map (with_counts sample_counts) [chess_open, book_club, coding_dojo]) 0 =
              (Inr rs, [''art'', ''coding dojo kata practice tech''])
            \<and> [] = map Personal rs)"
proof -
  have h: "get_personalized_recommendations (sample_env (Some 0)) [] sample_counts art_profile
     [chess_open, book_club, coding_dojo] 0 = (Inr [], [''art'', ''coding dojo kata practice tech''])"
    by code_simp
  show ?thesis by (rule conjI[OF h fallback_never_taken[OF h]])
qed

subsection \<open>The category component\<close>






subsection \<open>Determinism\<close>






subsection \<open>The profile builder\<close>

lemma first_seen_snoc:
  "first_seen (ks @ [k]) = (if k \<in> set ks then first_seen ks else first_seen ks @ [k])"
  by (simp add: first_seen_def)

lemma set_first_seen: "set (first_seen ks) = set ks"
  by (simp add: first_seen_def)

lemma distinct_first_seen: "distinct (first_seen ks)"
  by (simp add: first_seen_def)

lemma total_weight_snoc:
  "total_weight (cs @ [(k, w)]) k' = total_weight cs k' + (if k' = k then w else 0)"
  by (simp add: total_weight_def)

lemma total_weight_absent: "k \<notin> fst ` set cs \<Longrightarrow> total_weight cs k = 0"
proof -
  assume "k \<notin> fst ` set cs"
  then have "filter (\<lambda>c. fst c = k) cs = []" by (auto simp: filter_empty_conv)
  then show ?thesis by (simp add: total_weight_def)
qed

lemma bump_table:
  "distinct ks \<Longrightarrow> bump k w (map (\<lambda>k'. (k', f k')) ks) =
     (if k \<in> set ks then map (\<lambda>k'. (k', if k' = k then f k' + w else f k')) ks
      else map (\<lambda>k'. (k', f k')) ks @ [(k, w)])"
  by (induction ks) auto


lemma weight_table_Nil: "weight_table [] = []"
  by (simp add: weight_table_def first_seen_def Let_def)

lemma weight_table_skip: "weight_table (cs @ [([], w)]) = weight_table cs"
  by (simp add: weight_table_def Let_def)

lemma weight_table_snoc:
  assumes k: "k \<noteq> []"
  shows "bump k w (weight_table cs) = weight_table (cs @ [(k, w)])"
proof -
  define l where "l = filter (\<lambda>c. fst c \<noteq> []) cs"
  define ks where "ks = first_seen (map fst l)"
  have d: "distinct ks" by (simp add: ks_def distinct_first_seen)
  have sk: "set ks = fst ` set l" by (simp add: ks_def set_first_seen)
  have lhs: "weight_table cs = map (\<lambda>k'. (k', total_weight l k')) ks"
    by (simp add: weight_table_def l_def ks_def Let_def)
  have f: "filter (\<lambda>c. fst c \<noteq> []) (cs @ [(k, w)]) = l @ [(k, w)]"
    using k by (simp add: l_def)
  have rhs: "weight_table (cs @ [(k, w)]) =
      map (\<lambda>k'. (k', total_weight (l @ [(k, w)]) k')) (first_seen (map fst l @ [k]))"
    unfolding weight_table_def Let_def f by simp
  show ?thesis
  proof (cases "k \<in> set ks")
    case True
    then have "first_seen (map fst l @ [k]) = ks"
      using sk by (simp add: first_seen_snoc ks_def)
    with True d show ?thesis
      unfolding lhs rhs by (simp add: bump_table total_weight_snoc)
  next
    case False
    then have fs: "first_seen (map fst l @ [k]) = ks @ [k]"
      using sk by (simp add: first_seen_snoc ks_def)
    from False sk have "total_weight l k = 0" by (simp add: total_weight_absent)
    with False d show ?thesis
      unfolding lhs rhs fs by (auto simp: bump_table total_weight_snoc)
  qed
qed

lemma bump_all_table:
  "bump_all w ks (weight_table cs) = weight_table (cs @ map (\<lambda>k. (k, w)) ks)"
proof (induction ks arbitrary: cs)
  case Nil
  then show ?case by simp
next
  case (Cons k ks)
  have "bump_all w (k # ks) (weight_table cs) = bump_all w ks (weight_table (cs @ [(k, w)]))"
    by (cases "k = []") (simp_all add: weight_table_skip weight_table_snoc)
  also have "\<dots> = weight_table ((cs @ [(k, w)]) @ map (\<lambda>k. (k, w)) ks)"
    by (rule Cons.IH)
  finally show ?case by simp
qed

lemma foldl_bump_all_table:
  "foldl (\<lambda>d r. bump_all w (f r) d) (weight_table cs) rows =
     weight_table (cs @ map (\<lambda>k. (k, w)) (concat (map f rows)))"
proof (induction rows arbitrary: cs)
  case Nil
  then show ?case by simp
next
  case (Cons r rows)
  show ?case by (simp add: bump_all_table Cons.IH)
qed

lemma category_weights_table:
  "category_weights initial_categories user_events joined =
     weight_table (category_contributions initial_categories user_events joined)"
proof -
  have "bump_all 1 initial_categories [] = weight_table (map (\<lambda>c. (c, 1)) initial_categories)"
    using bump_all_table[of 1 initial_categories "[]"] by (simp add: weight_table_Nil)
  then show ?thesis
    by (simp add: category_weights_def category_contributions_def foldl_bump_all_table)
qed

lemma tag_weights_table:
  "tag_weights initial_tags user_events joined =
     weight_table (tag_contributions initial_tags user_events joined)"
proof -
  have "bump_all 1 initial_tags [] = weight_table (map (\<lambda>c. (c, 1)) initial_tags)"
    using bump_all_table[of 1 initial_tags "[]"] by (simp add: weight_table_Nil)
  then show ?thesis
    by (simp add: tag_weights_def tag_contributions_def foldl_bump_all_table)
qed

lemma favourites_ranked:
  assumes "d \<noteq> []" and "0 < n"
  shows "\<exists>ranked. sorted_wrt (\<lambda>a b. snd b \<le> snd a) ranked
           \<and> (\<forall>w. filter (\<lambda>x. snd x = w) ranked = filter (\<lambda>x. snd x = w) d)
           \<and> favourites n d initial = map fst (take n ranked)"
proof -
  have "length (top_labels n d) = min n (length d)"
    by (simp add: top_labels_def length_sort_desc min.commute)
  with assms have "top_labels n d \<noteq> []" by (cases d) auto
  then have "favourites n d initial = map fst (take n (sort_desc snd d))"
    by (simp add: favourites_def top_labels_def)
  then show ?thesis
    using sort_desc_sorted[of snd d] sort_desc_stable[of snd _ d] by blast
qed


text \<open>
  Claim C7, as stated, fails: for a user without created events and participation rows
  the favourites are the signup list itself. With the signup categories Music, Tech, Tech
  the weights are Music 1 and Tech 2, and the favourite categories are Music, Tech, Tech:
  not in the order of the weights, and with a label twice.
\<close>

theorem favourites_counterexample:
  "favorite_categories (build_user_profile [''Music'', ''Tech'', ''Tech''] [] [] [] [])
     = [''Music'', ''Tech'', ''Tech'']
   \<and> category_weights [''Music'', ''Tech'', ''Tech''] [] (resolved [] [])
     = [(''Music'', 1), (''Tech'', 2)]"
  by code_simp


text \<open>
  Claim C7, amended. The weight table that \<open>build_user_profile\<close> accumulates is the table
  of the specification (\<open>category_weights_table\<close>, \<open>tag_weights_table\<close>). For a user with
  at least one created event or participation row, and at least one weighted label, the
  favourite categories are the first 3 labels, and the favourite tags the first 5, of a
  ranking of that table by weight, highest first, in which labels of equal weight keep
  the order of their first insertion. For a user with neither, the favourites are the
  first 3 signup categories and the first 5 signup tags as they were given.
\<close>

theorem favourites_by_weight:
  fixes initial_categories initial_tags :: "string list"
  assumes "joined = resolved rows participations"
    and "W = weight_table (category_contributions initial_categories user_events joined)"
    and "T = weight_table (tag_contributions initial_tags user_events joined)"
    and "P = build_user_profile initial_categories initial_tags user_events participations rows"
  shows "(user_events \<noteq> [] \<or> participations \<noteq> [] \<longrightarrow>
           (W \<noteq> [] \<longrightarrow>
              (\<exists>ranked. sorted_wrt (\<lambda>a b. snd b \<le> snd a) ranked
                 \<and> (\<forall>w. filter (\<lambda>x. snd x = w) ranked = filter (\<lambda>x. snd x = w) W)
                 \<and> favorite_categories P = map fst (take 3 ranked)))
         \<and> (T \<noteq> [] \<longrightarrow>
              (\<exists>ranked. sorted_wrt (\<lambda>a b. snd b \<le> snd a) ranked
                 \<and> (\<forall>w. filter (\<lambda>x. snd x = w) ranked = filter (\<lambda>x. snd x = w) T)
                 \<and> favorite_tags P = map fst (take 5 ranked))))
       \<and> (user_events = [] \<and> participations = [] \<longrightarrow>
             favorite_categories P = take 3 initial_categories
           \<and> favorite_tags P = take 5 initial_tags)"
proof (intro conjI impI)
  assume h: "user_events \<noteq> [] \<or> participations \<noteq> []"
  then have c: "favorite_categories P = favourites 3 W initial_categories"
    and t: "favorite_tags P = favourites 5 T initial_tags"
    unfolding assms
    by (auto simp: build_user_profile_def Let_def category_weights_table tag_weights_table)
  {
    assume "W \<noteq> []"
    from favourites_ranked[OF this, of 3 initial_categories] c
    show "\<exists>ranked. sorted_wrt (\<lambda>a b. snd b \<le> snd a) ranked
                 \<and> (\<forall>w. filter (\<lambda>x. snd x = w) ranked = filter (\<lambda>x. snd x = w) W)
                 \<and> favorite_categories P = map fst (take 3 ranked)" by simp
  }
  {
    assume "T \<noteq> []"
    from favourites_ranked[OF this, of 5 initial_tags] t
    show "\<exists>ranked. sorted_wrt (\<lambda>a b. snd b \<le> snd a) ranked
                 \<and> (\<forall>w. filter (\<lambda>x. snd x = w) ranked = filter (\<lambda>x. snd x = w) T)
                 \<and> favorite_tags P = map fst (take 5 ranked)" by simp
  }
next
  assume "user_events = [] \<and> participations = []"
  then show "favorite_categories P = take 3 initial_categories"
    "favorite_tags P = take 5 initial_tags"
    unfolding assms by (simp_all add: build_user_profile_def Let_def)
qed

theorem favourites_by_weight_witness:
  "created_rows \<noteq> []
   \<and> weight_table (category_contributions signup_categories created_rows
         (resolved fetched_rows participation_rows))
       = [(''Music'', 3::int), (''Art'', 1), (''Tech'', 4)]
   \<and> weight_table (tag_contributions signup_tags created_rows
         (resolved fetched_rows participation_rows))
       = [(''live'', 3::int), (''python'', 4), (''ai'', 2), (''jazz'', 2)]
   \<and> favorite_categories (build_user_profile signup_categories signup_tags created_rows
         participation_rows fetched_rows) = [''Tech'', ''Music'', ''Art'']
   \<and> favorite_tags (build_user_profile signup_categories signup_tags created_rows
         participation_rows fetched_rows) = [''python'', ''live'', ''ai'', ''jazz'']
   \<and> (\<exists>ranked. sorted_wrt (\<lambda>a b. snd b \<le> snd a) ranked
          \<and> (\<forall>w. filter (\<lambda>x. snd x = w) ranked
                 = filter (\<lambda>x. snd x = w) [(''Music'', 3::int), (''Art'', 1), (''Tech'', 4)])
          \<and> [''Tech'', ''Music'', ''Art''] = map fst (take 3 ranked))
   \<and> (\<exists>ranked. sorted_wrt (\<lambda>a b. snd b \<le> snd a) ranked
          \<and> (\<forall>w. filter (\<lambda>x. snd x = w) ranked
                 = filter (\<lambda>x. snd x = w)
                     [(''live'', 3::int), (''python'', 4), (''ai'', 2), (''jazz'', 2)])
          \<and> [''python'', ''live'', ''ai'', ''jazz''] = map fst (take 5 ranked))
   \<and> favorite_categories (build_user_profile [''Music'', ''Tech'', ''Tech''] [] [] [] [])
       = take 3 [''Music'', ''Tech'', ''Tech'']"
proof -
  let ?P = "build_user_profile signup_categories signup_tags created_rows
         participation_rows fetched_rows"
  have h0: "created_rows \<noteq> []"
    by (simp add: created_rows_def)
  then have h: "created_rows \<noteq> [] \<or> participation_rows \<noteq> []" ..
  have w: "weight_table (category_contributions signup_categories created_rows
         (resolved fetched_rows participation_rows))
       = [(''Music'', 3::int), (''Art'', 1), (''Tech'', 4)]"
    by code_simp
  have t: "weight_table (tag_contributions signup_tags created_rows
         (resolved fetched_rows participation_rows))
       = [(''live'', 3::int), (''python'', 4), (''ai'', 2), (''jazz'', 2)]"
    by code_simp
  have fc: "favorite_categories ?P = [''Tech'', ''Music'', ''Art'']" by code_simp
  have ft: "favorite_tags ?P = [''python'', ''live'', ''ai'', ''jazz'']" by code_simp
  note with_history =
    favourites_by_weight[where user_events = created_rows
      and participations = participation_rows and rows = fetched_rows
      and initial_categories = signup_categories and initial_tags = signup_tags,
      OF refl w[symmetric] t[symmetric] refl]
  have ne1: "[(''Music'', 3::int), (''Art'', 1), (''Tech'', 4)] \<noteq> []" by simp
  have ne2: "[(''live'', 3::int), (''python'', 4), (''ai'', 2), (''jazz'', 2)] \<noteq> []" by simp
  note both = conjunct1[OF with_history, THEN mp, OF h]
  have
    a0: "[(''Music'', 3::int), (''Art'', 1), (''Tech'', 4)] \<noteq> [] \<longrightarrow>
      (\<exists>ranked. sorted_wrt (\<lambda>a b. snd b \<le> snd a) ranked
          \<and> (\<forall>w. filter (\<lambda>x. snd x = w) ranked
                 = filter (\<lambda>x. snd x = w) [(''Music'', 3::int), (''Art'', 1), (''Tech'', 4)])
          \<and> favorite_categories ?P = map fst (take 3 ranked))"
    and
    b0: "[(''live'', 3::int), (''python'', 4), (''ai'', 2), (''jazz'', 2)] \<noteq> [] \<longrightarrow>
      (\<exists>ranked. sorted_wrt (\<lambda>a b. snd b \<le> snd a) ranked
          \<and> (\<forall>w. filter (\<lambda>x. snd x = w) ranked
                 = filter (\<lambda>x. snd x = w)
                     [(''live'', 3::int), (''python'', 4), (''ai'', 2), (''jazz'', 2)])
          \<and> favorite_tags ?P = map fst (take 5 ranked))"
    by (rule conjunct1[OF both]) (rule conjunct2[OF both])
  from a0[THEN mp, OF ne1] b0[THEN mp, OF ne2] have
    a: "\<exists>ranked. sorted_wrt (\<lambda>a b. snd b \<le> snd a) ranked
          \<and> (\<forall>w. filter (\<lambda>x. snd x = w) ranked
                 = filter (\<lambda>x. snd x = w) [(''Music'', 3::int), (''Art'', 1), (''Tech'', 4)])
          \<and> favorite_categories ?P = map fst (take 3 ranked)"
    and
    b: "\<exists>ranked. sorted_wrt (\<lambda>a b. snd b \<le> snd a) ranked
          \<and> (\<forall>w. filter (\<lambda>x. snd x = w) ranked
                 = filter (\<lambda>x. snd x = w)
                     [(''live'', 3::int), (''python'', 4), (''ai'', 2), (''jazz'', 2)])
          \<and> favorite_tags ?P = map fst (take 5 ranked)"
    by this+
  note without_history =
    favourites_by_weight[where user_events = "[]" and participations = "[]" and rows = "[]"
      and initial_categories = "[''Music'', ''Tech'', ''Tech'']" and initial_tags = "[]",
      OF refl refl refl refl]
  then have
    c: "favorite_categories (build_user_profile [''Music'', ''Tech'', ''Tech''] [] [] [] [])
       = take 3 [''Music'', ''Tech'', ''Tech'']"
    by simp
  show ?thesis
    by (intro conjI h0 w t fc ft a[unfolded fc] b[unfolded ft] c)
qed

end
